theory Spec2Isabelle
  imports Complex_Main
begin

section \<open>Data model of the player shell (NexenPlayer)\<close>

text \<open>
  The component is a React function component: its state cells (\<open>useState\<close>) and its
  mutable refs (\<open>useRef\<close>) are the fields of one record, every handler is a function from
  that record to the updated record together with the list of calls it makes on the outside
  world (the native video element, the native brightness module, the child views, the host's
  callback props), in the order the source makes them.

  Numbers that are not array indices (volume, brightness, times) are reals; array indices
  are integers. An optional field of a TypeScript object type is an \<open>option\<close>:
  \<open>None\<close> is what reading the field gives when it is not set, \<open>undefined\<close>. Only
  the config object the host passes is spread over other objects, and there a key that is
  absent and a key that is present with the value \<open>undefined\<close> behave differently; its
  record \<open>PassedConfig\<close> keeps the two apart. A handler \<open>_onX\<close> of the source is
  \<open>h_onX\<close> here, since a name cannot start with an underscore and the props already use
  the names \<open>onX\<close>.
\<close>

datatype LayoutMode = Basic | Intermediate | Advanced

datatype ControlHideMode = Auto | Touch

datatype ResizeMode = Stretch | Contain | Cover

datatype PlaybackSpeed = S025 | S05 | S075 | S10 | S15 | S20 | S30

record NexenSource =
  source_uri :: "string option"
  title :: "string option"
  poster :: "string option"

type_synonym PlayListItem = NexenSource

record PlayList =
  items :: "PlayListItem list option"
  currentIndex :: "int option"

record NexenConfig =
  loaderText :: "string option"
  errorText :: "string option"
  doubleTapTime :: "real option"
  controlTimeout :: "real option"
  controlHideMode :: "ControlHideMode option"
  layoutMode :: "LayoutMode option"
  posterResizeMode :: "ResizeMode option"
  resizeMode :: "ResizeMode option"
  volume :: "real option"
  brightness :: "real option"
  playbackSpeed :: "PlaybackSpeed option"
  muted :: "bool option"
  repeat :: "bool option"
  autoPlay :: "bool option"
  index :: "int option"
  activeIndex :: "int option"
  optimize :: "bool option"
  disableOnScreenPlayButton :: "bool option"
  disableBack :: "bool option"
  disableResizeMode :: "bool option"
  disableVolume :: "bool option"
  disableMore :: "bool option"
  disableSkip :: "bool option"
  disableStop :: "bool option"
  disableFullscreen :: "bool option"
  disablePlayList :: "bool option"
  disableSubtitle :: "bool option"
  disableAirplay :: "bool option"

text \<open>
  The config object as the host passes it. Every field of the \<open>NexenConfig\<close> type is
  optional, so the object may lack a key (\<open>None\<close>), or have it with the value
  \<open>undefined\<close> (\<open>Some None\<close>), or have it with a value of the field's type.
\<close>

record PassedConfig =
  p_loaderText :: "string option option"
  p_errorText :: "string option option"
  p_doubleTapTime :: "real option option"
  p_controlTimeout :: "real option option"
  p_controlHideMode :: "ControlHideMode option option"
  p_layoutMode :: "LayoutMode option option"
  p_posterResizeMode :: "ResizeMode option option"
  p_resizeMode :: "ResizeMode option option"
  p_volume :: "real option option"
  p_brightness :: "real option option"
  p_playbackSpeed :: "PlaybackSpeed option option"
  p_muted :: "bool option option"
  p_repeat :: "bool option option"
  p_autoPlay :: "bool option option"
  p_index :: "int option option"
  p_activeIndex :: "int option option"
  p_optimize :: "bool option option"
  p_disableOnScreenPlayButton :: "bool option option"
  p_disableBack :: "bool option option"
  p_disableResizeMode :: "bool option option"
  p_disableVolume :: "bool option option"
  p_disableMore :: "bool option option"
  p_disableSkip :: "bool option option"
  p_disableStop :: "bool option option"
  p_disableFullscreen :: "bool option option"
  p_disablePlayList :: "bool option option"
  p_disableSubtitle :: "bool option option"
  p_disableAirplay :: "bool option option"

text \<open>
  The props of the component. A callback prop is a function of the host; what the player
  can observe of it is whether it was passed, so each callback field is the flag
  "the host passed this prop", and a call of it is an entry of the handler's trace.
  The record is what the component function receives, that is, after the framework has put
  the \<open>defaultProps\<close> (an empty playlist at index 0) in the place of an omitted prop.
\<close>

record NexenPlayerProps =
  playerSource :: NexenSource
  playerConfig :: "PassedConfig option"
  playerPlayList :: "PlayList option"
  onBackPress :: bool
  onFullScreenModeUpdate :: bool
  onPlay :: bool
  onPause :: bool
  onStop :: bool
  onSkipNext :: bool
  onSkipBack :: bool
  onVolumeUpdate :: bool
  onBrightnessUpdate :: bool
  onMuteUpdate :: bool
  onRepeatUpdate :: bool
  onSpeedUpdate :: bool
  onPlayListItemSelect :: bool
  onScreenLockUpdate :: bool
  onAirplay :: bool
  onLoad :: bool
  onError :: bool

record TrackInfo =
  trackTime :: real
  totalTrackTime :: real
  cachedTrackTime :: real

text \<open>
  A timer handle of the platform (\<open>NodeJS.Timeout\<close> in the source): an object, hence
  always truthy; the number only tells handles apart.
\<close>

datatype timeout_handle = Handle nat

text \<open>
  The state cells and refs of the component, with the platform's queue of pending
  auto-hide timers (handle and delay; the callback of every timer the component creates is
  \<open>hideMainControl\<close>) and the counter the platform takes fresh handles from. Cells that
  hold view objects only (animated values, refs to child views, the track lists of the
  dropdown menus, the layout dimension) are left out: a ref to a child view is non-null
  exactly when the child is rendered, which the state determines.
\<close>

record player =
  showControl :: bool
  showSpeedControl :: bool
  showTrackControl :: bool
  showPlaylistControl :: bool
  showMoreControl :: bool
  loading :: bool
  error :: bool
  locked :: bool
  disablePlaylistAndSkip :: bool
  nexenSource :: NexenSource
  nexenConfig :: NexenConfig
  fullScreen :: bool
  paused :: bool
  trackInfo :: TrackInfo
  playList :: "PlayList option"
  isSeeking :: bool
  isSliding :: bool
  isSeekable :: bool
  gestureEnabled :: bool
  isStopped :: bool
  isEnded :: bool
  isVolumeSeekable :: bool
  showPoster :: bool
  isFullscreen :: bool
  controlTimeoutRef :: "timeout_handle option"
  pendingTimers :: "(timeout_handle \<times> real option) list"
  nextTimer :: nat

subsection \<open>Optional-field defaulting\<close>

text \<open>
  \<open>{...a, ...b}\<close> with the passed config for \<open>b\<close>: the spread copies every key
  \<open>b\<close> has, whatever its value, over the key of \<open>a\<close>; a key \<open>b\<close> lacks keeps the
  value it has in \<open>a\<close>. In the result only reads are of interest, so a key that ends up
  \<open>undefined\<close> and a key that is absent are both \<open>None\<close> there.
\<close>

definition over :: "'a option \<Rightarrow> 'a option option \<Rightarrow> 'a option" where
  "over a b = (case b of None \<Rightarrow> a | Some v \<Rightarrow> v)"

definition spreadConfig :: "NexenConfig \<Rightarrow> PassedConfig \<Rightarrow> NexenConfig" where
  "spreadConfig a b = \<lparr>
     loaderText = over (loaderText a) (p_loaderText b),
     errorText = over (errorText a) (p_errorText b),
     doubleTapTime = over (doubleTapTime a) (p_doubleTapTime b),
     controlTimeout = over (controlTimeout a) (p_controlTimeout b),
     controlHideMode = over (controlHideMode a) (p_controlHideMode b),
     layoutMode = over (layoutMode a) (p_layoutMode b),
     posterResizeMode = over (posterResizeMode a) (p_posterResizeMode b),
     resizeMode = over (resizeMode a) (p_resizeMode b),
     volume = over (volume a) (p_volume b),
     brightness = over (brightness a) (p_brightness b),
     playbackSpeed = over (playbackSpeed a) (p_playbackSpeed b),
     muted = over (muted a) (p_muted b),
     repeat = over (repeat a) (p_repeat b),
     autoPlay = over (autoPlay a) (p_autoPlay b),
     index = over (index a) (p_index b),
     activeIndex = over (activeIndex a) (p_activeIndex b),
     optimize = over (optimize a) (p_optimize b),
     disableOnScreenPlayButton = over (disableOnScreenPlayButton a) (p_disableOnScreenPlayButton b),
     disableBack = over (disableBack a) (p_disableBack b),
     disableResizeMode = over (disableResizeMode a) (p_disableResizeMode b),
     disableVolume = over (disableVolume a) (p_disableVolume b),
     disableMore = over (disableMore a) (p_disableMore b),
     disableSkip = over (disableSkip a) (p_disableSkip b),
     disableStop = over (disableStop a) (p_disableStop b),
     disableFullscreen = over (disableFullscreen a) (p_disableFullscreen b),
     disablePlayList = over (disablePlayList a) (p_disablePlayList b),
     disableSubtitle = over (disableSubtitle a) (p_disableSubtitle b),
     disableAirplay = over (disableAirplay a) (p_disableAirplay b) \<rparr>"

text \<open>The object literal that precedes \<open>...playerConfig\<close> in the initial \<open>nexenConfig\<close>.\<close>

definition defaultConfig :: NexenConfig where
  "defaultConfig = \<lparr>
     loaderText = Some ''Loading...'',
     errorText = Some ''Error...!'',
     doubleTapTime = Some 300,
     controlTimeout = Some 5000,
     controlHideMode = Some Touch,
     layoutMode = Some Intermediate,
     posterResizeMode = Some Cover,
     resizeMode = Some Contain,
     volume = Some 80,
     brightness = Some 25,
     playbackSpeed = Some S10,
     muted = Some False,
     repeat = Some False,
     autoPlay = Some False,
     index = None,
     activeIndex = None,
     optimize = None,
     disableOnScreenPlayButton = Some False,
     disableBack = Some False,
     disableResizeMode = Some False,
     disableVolume = Some False,
     disableMore = Some False,
     disableSkip = Some False,
     disableStop = Some False,
     disableFullscreen = Some False,
     disablePlayList = Some False,
     disableSubtitle = Some False,
     disableAirplay = None \<rparr>"

text \<open>Spreading \<open>undefined\<close> adds nothing.\<close>

definition initialConfig :: "PassedConfig option \<Rightarrow> NexenConfig" where
  "initialConfig pc =
     (case pc of None \<Rightarrow> defaultConfig | Some c \<Rightarrow> spreadConfig defaultConfig c)"

text \<open>Truthiness of an optional boolean: \<open>undefined\<close> is falsy.\<close>

definition truthy :: "bool option \<Rightarrow> bool" where
  "truthy b = (case b of None \<Rightarrow> False | Some v \<Rightarrow> v)"

text \<open>The initial values of the state cells and refs, as the \<open>useState\<close> and \<open>useRef\<close>
  calls give them on the first render.\<close>

definition initialPlayer :: "NexenPlayerProps \<Rightarrow> player" where
  "initialPlayer props = \<lparr>
     showControl = False,
     showSpeedControl = False,
     showTrackControl = False,
     showPlaylistControl = False,
     showMoreControl = False,
     loading = False,
     error = False,
     locked = False,
     disablePlaylistAndSkip = False,
     nexenSource = playerSource props,
     nexenConfig = initialConfig (playerConfig props),
     fullScreen = False,
     paused = (\<not> truthy (autoPlay (initialConfig (playerConfig props)))),
     trackInfo = \<lparr> trackTime = 0, totalTrackTime = 0, cachedTrackTime = 0 \<rparr>,
     playList = playerPlayList props,
     isSeeking = False,
     isSliding = False,
     isSeekable = False,
     gestureEnabled = False,
     isStopped = False,
     isEnded = False,
     isVolumeSeekable = True,
     showPoster = True,
     isFullscreen = False,
     controlTimeoutRef = None,
     pendingTimers = [],
     nextTimer = 1 \<rparr>"


section \<open>The outside world as a trace\<close>

text \<open>The calls of the host's callback props, with their arguments.\<close>

datatype host_call =
    OnBackPress
  | OnFullScreenModeUpdate bool "int option"
  | OnPlay "int option"
  | OnPause "int option"
  | OnStop "int option"
  | OnSkipNext int
  | OnSkipBack int
  | OnVolumeUpdate real
  | OnBrightnessUpdate real
  | OnMuteUpdate bool
  | OnRepeatUpdate bool
  | OnSpeedUpdate PlaybackSpeed
  | OnPlayListItemSelect int
  | OnScreenLockUpdate bool
  | OnAirplay NexenSource
  | OnLoad "int option"
  | OnError string

text \<open>The overlays whose hiding is animated; the end callback of the animation clears the
  overlay's \<open>show...\<close> cell.\<close>

datatype panel = MainPanel | MorePanel | SpeedPanel | TrackPanel | PlaylistPanel

text \<open>The argument of \<open>updateIconTagView\<close>: the icon computed from the gesture's value, or
  the four icons computed from the config.\<close>

datatype icon_update =
    VolumeIcon real
  | BrightnessIcon real
  | ConfigIcons "real option" "real option" bool bool

datatype tip = TipPlay | TipPause

datatype effect =
    Host host_call
  | VideoSeek real
  | VideoSeekTolerance real real
  | VideoSetVolume real
  | SetBrightness real
  | UpdateIconTagView icon_update
  | TipViewUpdate tip
  | StartControlShowAnimation
  | HideAnimation panel
  | SetTimeout timeout_handle "real option"
  | ClearTimeout timeout_handle
  | RemoveBackHandler
  | RemoveAppStateSubscription

text \<open>\<open>f?.(x)\<close> and \<open>ref.current?.m(x)\<close>: the call is made when the callee is there.\<close>

definition opt :: "bool \<Rightarrow> effect list \<Rightarrow> effect list" where
  "opt b es = (if b then es else [])"

text \<open>
  The native video element is rendered, and \<open>videoRef.current\<close> non-null, unless the
  config asks for the optimised mode and this player is not the active one.
\<close>

definition videoMounted :: "player \<Rightarrow> bool" where
  "videoMounted s =
     (if truthy (optimize (nexenConfig s))
      then index (nexenConfig s) = activeIndex (nexenConfig s) else True)"

text \<open>The tip view is rendered unless the layout mode is \<open>'basic'\<close>.\<close>

definition tipMounted :: "player \<Rightarrow> bool" where
  "tipMounted s = (layoutMode (nexenConfig s) \<noteq> Some Basic)"

text \<open>\<open>nexenConfig?.optimize ? nexenConfig.index : playList?.currentIndex\<close>\<close>

definition reportedIndex :: "player \<Rightarrow> int option" where
  "reportedIndex s =
     (if truthy (optimize (nexenConfig s)) then index (nexenConfig s)
      else (case playList s of None \<Rightarrow> None | Some pl \<Rightarrow> currentIndex pl))"

section \<open>Showing and hiding the overlays\<close>

definition showMainControl :: "player \<Rightarrow> player \<times> effect list" where
  "showMainControl s = (s\<lparr>showControl := True\<rparr>, [])"

definition hideMainControl :: "player \<Rightarrow> player \<times> effect list" where
  "hideMainControl s = (s, [HideAnimation MainPanel])"

definition showMoreOptions :: "player \<Rightarrow> player \<times> effect list" where
  "showMoreOptions s = (s\<lparr>showMoreControl := True\<rparr>, [])"

definition hideMoreOptions :: "player \<Rightarrow> player \<times> effect list" where
  "hideMoreOptions s = (s, opt (showMoreControl s) [HideAnimation MorePanel])"

definition hidePlaybackSpeedControl :: "player \<Rightarrow> player \<times> effect list" where
  "hidePlaybackSpeedControl s = (s, opt (showSpeedControl s) [HideAnimation SpeedPanel])"

definition hideSubtitleTrackControl :: "player \<Rightarrow> player \<times> effect list" where
  "hideSubtitleTrackControl s = (s, opt (showTrackControl s) [HideAnimation TrackPanel])"

definition hideVideoListControl :: "player \<Rightarrow> player \<times> effect list" where
  "hideVideoListControl s = (s, opt (showPlaylistControl s) [HideAnimation PlaylistPanel])"

text \<open>The end callback of a hide animation.\<close>

fun animationEnd :: "panel \<Rightarrow> player \<Rightarrow> player" where
  "animationEnd MainPanel s = s\<lparr>showControl := False\<rparr>"
| "animationEnd MorePanel s = s\<lparr>showMoreControl := False\<rparr>"
| "animationEnd SpeedPanel s = s\<lparr>showSpeedControl := False\<rparr>"
| "animationEnd TrackPanel s = s\<lparr>showTrackControl := False\<rparr>"
| "animationEnd PlaylistPanel s = s\<lparr>showPlaylistControl := False\<rparr>"

text \<open>A handler's result once the hide animations it started have ended.\<close>

fun settle :: "player \<times> effect list \<Rightarrow> player" where
  "settle (s, []) = s"
| "settle (s, HideAnimation p # es) = settle (animationEnd p s, es)"
| "settle (s, e # es) = settle (s, es)"

definition h_onMorePress :: "player \<Rightarrow> player \<times> effect list" where
  "h_onMorePress s =
     (let (s1, e1) = showMoreOptions s;
          (s2, e2) = hideMainControl s1
      in (s2\<lparr>gestureEnabled := False\<rparr>, e1 @ e2))"

section \<open>Gestures\<close>

text \<open>
  The two enumerations are declared by the gesture view, whose file is not among the
  sources; the members are the ones the handlers switch on, and \<open>OTHER_TAP\<close> and
  \<open>OTHER_GESTURE\<close> stand for any member the switches do not name (they have no
  \<open>default\<close> branch).
\<close>

datatype TapEventType =
  SINGLE_TAP | DOUBLE_TAP_LEFT | DOUBLE_TAP_RIGHT | DOUBLE_TAP_MIDDLE | OTHER_TAP

datatype GestureEventType = TRACK | VOLUME | BRIGHTNESS | OTHER_GESTURE

definition seekTo :: "real \<Rightarrow> player \<Rightarrow> player \<times> effect list" where
  "seekTo t s =
     (s\<lparr>trackInfo := (trackInfo s)\<lparr>trackTime := t\<rparr>\<rparr>, opt (videoMounted s) [VideoSeek t])"

definition handleDoubleTapPlayPause :: "player \<Rightarrow> player \<times> effect list" where
  "handleDoubleTapPlayPause s =
     (if paused s
      then (s\<lparr>paused := False\<rparr>, opt (tipMounted s) [TipViewUpdate TipPlay])
      else (s\<lparr>paused := True\<rparr>, opt (tipMounted s) [TipViewUpdate TipPause]))"

text \<open>The shared body of the two side double taps: \<open>if (value)\<close> is false for a missing
  value and for zero.\<close>

definition doubleTapSeek :: "real option \<Rightarrow> player \<Rightarrow> player \<times> effect list" where
  "doubleTapSeek v s =
     (case v of
        None \<Rightarrow> (s, [])
      | Some t \<Rightarrow> if t \<noteq> 0 then seekTo t s else (s, []))"

fun h_onTapDetected :: "player \<Rightarrow> TapEventType \<Rightarrow> real option \<Rightarrow> player \<times> effect list" where
  "h_onTapDetected s SINGLE_TAP v =
     (if showMoreControl s
      then (let (s1, e1) = hideMoreOptions s in (s1\<lparr>gestureEnabled := True\<rparr>, e1))
      else if showSpeedControl s
      then (let (s1, e1) = hidePlaybackSpeedControl s in (s1\<lparr>gestureEnabled := True\<rparr>, e1))
      else if showTrackControl s
      then (let (s1, e1) = hideSubtitleTrackControl s in (s1\<lparr>gestureEnabled := True\<rparr>, e1))
      else if showPlaylistControl s
      then (let (s1, e1) = hideVideoListControl s in (s1\<lparr>gestureEnabled := True\<rparr>, e1))
      else if showControl s then hideMainControl s
      else showMainControl s)"
| "h_onTapDetected s DOUBLE_TAP_LEFT v = doubleTapSeek v s"
| "h_onTapDetected s DOUBLE_TAP_RIGHT v = doubleTapSeek v s"
| "h_onTapDetected s DOUBLE_TAP_MIDDLE v = handleDoubleTapPlayPause s"
| "h_onTapDetected s OTHER_TAP v = (s, [])"

fun h_onGestureMove :: "player \<Rightarrow> GestureEventType \<Rightarrow> real \<Rightarrow> player \<times> effect list" where
  "h_onGestureMove s TRACK v = seekTo v s"
| "h_onGestureMove s VOLUME v =
     (s, opt (showControl s) [UpdateIconTagView (VolumeIcon v)]
         @ opt (videoMounted s) [VideoSetVolume (v / 100)])"
| "h_onGestureMove s BRIGHTNESS v =
     (s, opt (showControl s) [UpdateIconTagView (BrightnessIcon v)]
         @ [SetBrightness (v / 100)])"
| "h_onGestureMove s OTHER_GESTURE v = (s, [])"

text \<open>
  \<open>_onGestureEnd\<close> is memoised with an empty dependency list, so the callback props it
  calls are those of the render that created it; the state it writes goes through the
  functional form of the setter and is current.
\<close>

fun h_onGestureEnd ::
  "NexenPlayerProps \<Rightarrow> player \<Rightarrow> GestureEventType \<Rightarrow> real \<Rightarrow> player \<times> effect list" where
  "h_onGestureEnd props s TRACK v = seekTo v s"
| "h_onGestureEnd props s VOLUME v =
     (s\<lparr>nexenConfig := (nexenConfig s)\<lparr>volume := Some v\<rparr>\<rparr>,
      opt (showControl s) [UpdateIconTagView (VolumeIcon v)]
      @ opt (videoMounted s) [VideoSetVolume (v / 100)]
      @ opt (onVolumeUpdate props) [Host (OnVolumeUpdate v)])"
| "h_onGestureEnd props s BRIGHTNESS v =
     (s\<lparr>nexenConfig := (nexenConfig s)\<lparr>brightness := Some v\<rparr>\<rparr>,
      opt (showControl s) [UpdateIconTagView (BrightnessIcon v)]
      @ [SetBrightness (v / 100)]
      @ opt (onBrightnessUpdate props) [Host (OnBrightnessUpdate v)])"
| "h_onGestureEnd props s OTHER_GESTURE v = (s, [])"


section \<open>Load errors and the rendered video element\<close>

text \<open>The error object of the native video element: \<open>error.error.errorString\<close>.\<close>

record LoadError =
  errorString :: string

text \<open>\<open>_onError\<close> is memoised with an empty dependency list, like \<open>_onGestureEnd\<close>.\<close>

definition h_onError :: "NexenPlayerProps \<Rightarrow> player \<Rightarrow> LoadError \<Rightarrow> player \<times> effect list" where
  "h_onError props s e =
     (s\<lparr>error := True\<rparr>, opt (onError props) [Host (OnError (errorString e))])"

text \<open>
  The props the render passes to the native video element. \<open>None\<close> in an optional prop is
  a prop the element is not given; \<open>None\<close> in \<open>video_volume\<close> and \<open>video_rate\<close> is the
  \<open>NaN\<close> that arithmetic on \<open>undefined\<close> yields.
\<close>

record VideoProps =
  video_source :: NexenSource
  video_paused :: bool
  video_resizeMode :: "ResizeMode option"
  video_muted :: "bool option"
  video_volume :: "real option"
  video_repeat :: "bool option"
  video_rate :: "real option"
  progressUpdateInterval :: nat
  minLoadRetryCount :: "nat option"
  mixWithOthers :: "string option"
  ignoreSilentSwitch :: "string option"
  pictureInPicture :: bool
  playInBackground :: bool
  allowsExternalPlayback :: bool
  disableFocus :: "bool option"
  playWhenInactive :: bool

datatype render_error = TypeError

text \<open>\<open>Number(speed)\<close> on the strings of the \<open>PlaybackSpeed\<close> type.\<close>

fun speedNumber :: "PlaybackSpeed \<Rightarrow> real" where
  "speedNumber S025 = 0.25"
| "speedNumber S05 = 0.5"
| "speedNumber S075 = 0.75"
| "speedNumber S10 = 1"
| "speedNumber S15 = 1.5"
| "speedNumber S20 = 2"
| "speedNumber S30 = 3"

text \<open>
  \<open>newSource\<close>: the current item of a non-empty playlist, else the player's own source.
  Reading \<open>.itemSource\<close> of an item that is not there throws.
\<close>

definition newSource :: "player \<Rightarrow> render_error + NexenSource" where
  "newSource s =
     (case playList s of
        None \<Rightarrow> Inr (nexenSource s)
      | Some pl \<Rightarrow>
          (case items pl of
             None \<Rightarrow> Inr (nexenSource s)
           | Some xs \<Rightarrow>
               if length xs \<noteq> 0
               then (case currentIndex pl of
                       None \<Rightarrow> Inl TypeError
                     | Some i \<Rightarrow>
                         if 0 \<le> i \<and> i < int (length xs) then Inr (xs ! nat i)
                         else Inl TypeError)
               else Inr (nexenSource s)))"

text \<open>The props both branches of the render pass alike.\<close>

definition commonVideoProps :: "player \<Rightarrow> NexenSource \<Rightarrow> VideoProps" where
  "commonVideoProps s src = \<lparr>
     video_source = src,
     video_paused = paused s,
     video_resizeMode = resizeMode (nexenConfig s),
     video_muted = muted (nexenConfig s),
     video_volume = map_option (\<lambda>v. v / 100) (volume (nexenConfig s)),
     video_repeat = repeat (nexenConfig s),
     video_rate = map_option speedNumber (playbackSpeed (nexenConfig s)),
     progressUpdateInterval = 1000,
     minLoadRetryCount = None,
     mixWithOthers = None,
     ignoreSilentSwitch = None,
     pictureInPicture = True,
     playInBackground = True,
     allowsExternalPlayback = True,
     disableFocus = None,
     playWhenInactive = True \<rparr>"

text \<open>
  The video element of the render: in the optimised mode it is there only for the active
  player and gets the common props; otherwise it also gets \<open>minLoadRetryCount={1000}\<close>,
  \<open>mixWithOthers="duck"\<close>, \<open>ignoreSilentSwitch="ignore"\<close> and \<open>disableFocus={true}\<close>.
\<close>

definition renderVideo :: "player \<Rightarrow> render_error + VideoProps option" where
  "renderVideo s =
     (case newSource s of
        Inl e \<Rightarrow> Inl e
      | Inr src \<Rightarrow>
          if truthy (optimize (nexenConfig s))
          then (if index (nexenConfig s) = activeIndex (nexenConfig s)
                then Inr (Some (commonVideoProps s src)) else Inr None)
          else Inr (Some ((commonVideoProps s src)\<lparr>
                 minLoadRetryCount := Some 1000,
                 mixWithOthers := Some ''duck'',
                 ignoreSilentSwitch := Some ''ignore'',
                 disableFocus := Some True \<rparr>)))"

section \<open>The auto-hide timer\<close>

definition setControlTimeout :: "player \<Rightarrow> player \<times> effect list" where
  "setControlTimeout s =
     (let h = Handle (nextTimer s); d = controlTimeout (nexenConfig s)
      in (s\<lparr>controlTimeoutRef := Some h,
            pendingTimers := pendingTimers s @ [(h, d)],
            nextTimer := Suc (nextTimer s)\<rparr>,
          [SetTimeout h d]))"

definition clearControlTimeout :: "player \<Rightarrow> player \<times> effect list" where
  "clearControlTimeout s =
     (case controlTimeoutRef s of
        None \<Rightarrow> (s, [])
      | Some h \<Rightarrow>
          (s\<lparr>pendingTimers := filter (\<lambda>t. fst t \<noteq> h) (pendingTimers s)\<rparr>,
           [ClearTimeout h]))"

definition resetControlTimeout :: "player \<Rightarrow> player \<times> effect list" where
  "resetControlTimeout s =
     (let (s1, e1) = clearControlTimeout s;
          (s2, e2) = setControlTimeout s1
      in (s2, e1 @ e2))"

text \<open>
  The effect with the dependencies \<open>[showControl, fullScreen, locked, nexenConfig]\<close>: it
  runs after every render in which one of them changed.
\<close>

definition effect_showControl :: "player \<Rightarrow> player \<times> effect list" where
  "effect_showControl s =
     (let s0 = s\<lparr>isFullscreen := fullScreen s\<rparr>;
          (s1, e1) =
            (if showControl s0
             then (if controlHideMode (nexenConfig s0) = Some Auto
                   then (let (s', e') = setControlTimeout s0
                         in (s', StartControlShowAnimation # e'))
                   else (s0, [StartControlShowAnimation]))
             else (if controlHideMode (nexenConfig s0) = Some Auto
                   then clearControlTimeout s0
                   else (s0, [])))
      in (s1, e1 @
          (if layoutMode (nexenConfig s) = Some Advanced
           then opt (showControl s)
                  [UpdateIconTagView
                     (ConfigIcons (volume (nexenConfig s)) (brightness (nexenConfig s))
                        (truthy (repeat (nexenConfig s)))
                        (playbackSpeed (nexenConfig s) \<noteq> Some S10))]
           else [])))"

text \<open>The platform runs a pending timer: it leaves the queue and its callback,
  \<open>hideMainControl\<close>, runs. A handle that is not pending does nothing.\<close>

definition timerFired :: "timeout_handle \<Rightarrow> player \<Rightarrow> player \<times> effect list" where
  "timerFired h s =
     (if h \<in> fst ` set (pendingTimers s)
      then hideMainControl (s\<lparr>pendingTimers := filter (\<lambda>t. fst t \<noteq> h) (pendingTimers s)\<rparr>)
      else (s, []))"

text \<open>The cleanup the mount effect returns.\<close>

definition unmount :: "player \<Rightarrow> player \<times> effect list" where
  "unmount s =
     (let (s1, e1) = clearControlTimeout s
      in (s1, [RemoveBackHandler, RemoveAppStateSubscription] @ e1))"


section \<open>Footer and header actions\<close>

definition FORWARD_OR_REWIND_DURATION :: real where
  "FORWARD_OR_REWIND_DURATION = 10"

definition h_onRewind :: "player \<Rightarrow> player \<times> effect list" where
  "h_onRewind s =
     (let time = trackTime (trackInfo s) - FORWARD_OR_REWIND_DURATION in seekTo time s)"

definition h_onFastForward :: "player \<Rightarrow> player \<times> effect list" where
  "h_onFastForward s =
     (let time = trackTime (trackInfo s) + FORWARD_OR_REWIND_DURATION in seekTo time s)"

text \<open>
  \<open>undefined < n\<close> and \<open>n < undefined - 1\<close> are false, so a playlist without an index or
  without items is left alone.
\<close>

definition h_onSkipNext :: "NexenPlayerProps \<Rightarrow> player \<Rightarrow> player \<times> effect list" where
  "h_onSkipNext props s =
     (case playList s of
        None \<Rightarrow> (s, [])
      | Some pl \<Rightarrow>
          (case (currentIndex pl, items pl) of
             (Some i, Some xs) \<Rightarrow>
               if i < int (length xs) - 1
               then (let index = i + 1
                     in (s\<lparr>playList := Some (pl\<lparr>currentIndex := Some index\<rparr>)\<rparr>,
                         opt (onSkipNext props) [Host (OnSkipNext index)]))
               else (s, [])
           | _ \<Rightarrow> (s, [])))"

definition h_onSkipBack :: "NexenPlayerProps \<Rightarrow> player \<Rightarrow> player \<times> effect list" where
  "h_onSkipBack props s =
     (case playList s of
        None \<Rightarrow> (s, [])
      | Some pl \<Rightarrow>
          (case currentIndex pl of
             Some i \<Rightarrow>
               if i > 0
               then (let index = i - 1
                     in (s\<lparr>playList := Some (pl\<lparr>currentIndex := Some index\<rparr>)\<rparr>,
                         opt (onSkipBack props) [Host (OnSkipBack index)]))
               else (s, [])
           | None \<Rightarrow> (s, [])))"

text \<open>The resize modes in the order of the toggle. The element type of the source's array
  admits \<open>undefined\<close>, as \<open>ResizeMode\<close> does.\<close>

definition RESIZE_MODE_VALUES :: "ResizeMode option list" where
  "RESIZE_MODE_VALUES = [Some Contain, Some Cover, Some Stretch]"

text \<open>\<open>Array.prototype.indexOf\<close>: the first position of the element, \<open>-1\<close> without one.\<close>

fun indexOf :: "'a list \<Rightarrow> 'a \<Rightarrow> int" where
  "indexOf [] x = -1"
| "indexOf (y # ys) x =
     (if y = x then 0 else (let i = indexOf ys x in if i < 0 then -1 else i + 1))"

text \<open>Reading an array at a position: \<open>undefined\<close> out of range.\<close>

definition elemAt :: "'a option list \<Rightarrow> int \<Rightarrow> 'a option" where
  "elemAt xs i = (if 0 \<le> i \<and> i < int (length xs) then xs ! nat i else None)"

definition handleResizeMode :: "ResizeMode option \<Rightarrow> player \<Rightarrow> player \<times> effect list" where
  "handleResizeMode rm s =
     (let currentIndex = indexOf RESIZE_MODE_VALUES rm
      in if currentIndex < int (length RESIZE_MODE_VALUES) - 1
         then (s\<lparr>nexenConfig :=
                   (nexenConfig s)\<lparr>resizeMode := elemAt RESIZE_MODE_VALUES (currentIndex + 1)\<rparr>\<rparr>, [])
         else (s\<lparr>nexenConfig :=
                   (nexenConfig s)\<lparr>resizeMode := elemAt RESIZE_MODE_VALUES 0\<rparr>\<rparr>, []))"

definition h_onAspectRatioPress :: "player \<Rightarrow> player \<times> effect list" where
  "h_onAspectRatioPress s = handleResizeMode (resizeMode (nexenConfig s)) s"

definition handleStopPlayback :: "NexenPlayerProps \<Rightarrow> player \<Rightarrow> player \<times> effect list" where
  "handleStopPlayback props s =
     (let s1 = s\<lparr>isStopped := True\<rparr>
      in if paused s
         then (s1, opt (videoMounted s) [VideoSeekTolerance 0 0]
                   @ opt (onStop props) [Host (OnStop (reportedIndex s))])
         else if isEnded s \<and> truthy (repeat (nexenConfig s))
         then (s1\<lparr>paused := False\<rparr>,
               opt (videoMounted s) [VideoSeekTolerance 0 0]
               @ opt (onStop props) [Host (OnStop (reportedIndex s))])
         else (s1\<lparr>paused := True\<rparr>, []))"

section \<open>The imperative handle\<close>

text \<open>
  The object \<open>useImperativeHandle\<close> gives the host: its keys, in the order of the object
  literal, and a call of one of its methods. The handle is rebuilt by every render, so its
  methods see the current props and state.
\<close>

definition NexenPlayerRef_keys :: "string list" where
  "NexenPlayerRef_keys =
     [''play'', ''pause'', ''stop'', ''skipNext'', ''skipBack'', ''setFullScreenMode'']"

datatype ref_call = Play | Pause | Stop | SkipNext | SkipBack | SetFullScreenMode bool

fun ref_key :: "ref_call \<Rightarrow> string" where
  "ref_key Play = ''play''"
| "ref_key Pause = ''pause''"
| "ref_key Stop = ''stop''"
| "ref_key SkipNext = ''skipNext''"
| "ref_key SkipBack = ''skipBack''"
| "ref_key (SetFullScreenMode f) = ''setFullScreenMode''"

fun imperativeHandle :: "NexenPlayerProps \<Rightarrow> player \<Rightarrow> ref_call \<Rightarrow> player \<times> effect list" where
  "imperativeHandle props s Play = (s\<lparr>paused := False\<rparr>, [])"
| "imperativeHandle props s Pause = (s\<lparr>paused := True\<rparr>, [])"
| "imperativeHandle props s Stop = handleStopPlayback props s"
| "imperativeHandle props s SkipNext = h_onSkipNext props s"
| "imperativeHandle props s SkipBack = h_onSkipBack props s"
| "imperativeHandle props s (SetFullScreenMode f) =
     (s\<lparr>fullScreen := f\<rparr>,
      opt (onFullScreenModeUpdate props) [Host (OnFullScreenModeUpdate f (reportedIndex s))])"

section \<open>The events of the player\<close>

text \<open>
  Everything modelled above that can happen to a mounted player, as one step function:
  the gesture view's events, the native element's load error, the host's calls through the
  handle, the button presses, the end of a hide animation, a timer of the platform running,
  the effect after a render, and the unmount.
\<close>

datatype event =
    TapDetected TapEventType "real option"
  | GestureMove GestureEventType real
  | GestureEnd GestureEventType real
  | VideoError LoadError
  | RefCall ref_call
  | AspectRatioPress
  | MorePress
  | RewindPress
  | FastForwardPress
  | SkipNextPress
  | SkipBackPress
  | StopPress
  | AnimationEnd panel
  | TimerFired timeout_handle
  | EffectShowControl
  | Unmount

fun step :: "NexenPlayerProps \<Rightarrow> event \<Rightarrow> player \<Rightarrow> player \<times> effect list" where
  "step props (TapDetected t v) s = h_onTapDetected s t v"
| "step props (GestureMove g v) s = h_onGestureMove s g v"
| "step props (GestureEnd g v) s = h_onGestureEnd props s g v"
| "step props (VideoError e) s = h_onError props s e"
| "step props (RefCall c) s = imperativeHandle props s c"
| "step props AspectRatioPress s = h_onAspectRatioPress s"
| "step props MorePress s = h_onMorePress s"
| "step props RewindPress s = h_onRewind s"
| "step props FastForwardPress s = h_onFastForward s"
| "step props SkipNextPress s = h_onSkipNext props s"
| "step props SkipBackPress s = h_onSkipBack props s"
| "step props StopPress s = handleStopPlayback props s"
| "step props (AnimationEnd p) s = (animationEnd p s, [])"
| "step props (TimerFired h) s = timerFired h s"
| "step props EffectShowControl s = effect_showControl s"
| "step props Unmount s = unmount s"

section \<open>Host input\<close>

text \<open>The key of the config the host passed: \<open>None\<close> when the host passed no config
  or a config without the key.\<close>

definition hostField ::
  "NexenPlayerProps \<Rightarrow> (PassedConfig \<Rightarrow> 'a option option) \<Rightarrow> 'a option option" where
  "hostField props f = (case playerConfig props of None \<Rightarrow> None | Some c \<Rightarrow> f c)"

text \<open>Optional-field defaulting in the spec's words: an omitted field takes the default, a
  supplied one overrides it with whatever was supplied.\<close>

definition defaulted :: "'a option \<Rightarrow> 'a option option \<Rightarrow> 'a option \<Rightarrow> bool" where
  "defaulted d h e = ((h = None \<longrightarrow> e = d) \<and> (\<forall>v. h = Some v \<longrightarrow> e = v))"

text \<open>The config \<open>{}\<close>; a host that passes a volume, the auto-play flag and the
  auto-hide mode, a playlist of three items and every callback; and a host that passes
  \<open>{resizeMode: undefined, autoPlay: undefined}\<close>.\<close>

definition emptyConfig :: PassedConfig where
  "emptyConfig = \<lparr>
     p_loaderText = None,
     p_errorText = None,
     p_doubleTapTime = None,
     p_controlTimeout = None,
     p_controlHideMode = None,
     p_layoutMode = None,
     p_posterResizeMode = None,
     p_resizeMode = None,
     p_volume = None,
     p_brightness = None,
     p_playbackSpeed = None,
     p_muted = None,
     p_repeat = None,
     p_autoPlay = None,
     p_index = None,
     p_activeIndex = None,
     p_optimize = None,
     p_disableOnScreenPlayButton = None,
     p_disableBack = None,
     p_disableResizeMode = None,
     p_disableVolume = None,
     p_disableMore = None,
     p_disableSkip = None,
     p_disableStop = None,
     p_disableFullscreen = None,
     p_disablePlayList = None,
     p_disableSubtitle = None,
     p_disableAirplay = None \<rparr>"

definition sampleSource :: "string \<Rightarrow> NexenSource" where
  "sampleSource u = \<lparr> source_uri = Some u, title = None, poster = None \<rparr>"

definition sampleProps :: NexenPlayerProps where
  "sampleProps = \<lparr>
     playerSource = sampleSource ''a.mp4'',
     playerConfig = Some (emptyConfig\<lparr>p_volume := Some (Some 30),
                                        p_autoPlay := Some (Some True),
                                        p_controlHideMode := Some (Some Auto)\<rparr>),
     playerPlayList = Some \<lparr> items = Some [sampleSource ''a.mp4'', sampleSource ''b.mp4'',
                                              sampleSource ''c.mp4''],
                              currentIndex = Some 1 \<rparr>,
     onBackPress = True, onFullScreenModeUpdate = True, onPlay = True, onPause = True,
     onStop = True, onSkipNext = True, onSkipBack = True, onVolumeUpdate = True,
     onBrightnessUpdate = True, onMuteUpdate = True, onRepeatUpdate = True,
     onSpeedUpdate = True, onPlayListItemSelect = True, onScreenLockUpdate = True,
     onAirplay = True, onLoad = True, onError = True \<rparr>"

definition undefinedProps :: NexenPlayerProps where
  "undefinedProps =
     sampleProps\<lparr>playerConfig :=
       Some (emptyConfig\<lparr>p_resizeMode := Some None, p_autoPlay := Some None\<rparr>)\<rparr>"

section \<open>Observations on a trace\<close>

text \<open>The calls of the host's callbacks in a trace, in order.\<close>

fun hostCalls :: "effect list \<Rightarrow> host_call list" where
  "hostCalls [] = []"
| "hostCalls (Host c # es) = c # hostCalls es"
| "hostCalls (e # es) = hostCalls es"

text \<open>A load error of the native element.\<close>

definition sampleError :: LoadError where
  "sampleError = \<lparr> errorString = ''Unrecognized media format'' \<rparr>"

text \<open>Three presses of the aspect-ratio button.\<close>

definition press3 :: "player \<Rightarrow> player" where
  "press3 s = fst (h_onAspectRatioPress (fst (h_onAspectRatioPress (fst (h_onAspectRatioPress s)))))"

section \<open>Derived observations and sample states\<close>

text \<open>The player of \<open>sampleProps\<close> after a tap that shows the main controls and a press
  of the More button, with both animations ended.\<close>

definition morePanelOpen :: player where
  "morePanelOpen =
     settle (h_onMorePress (settle (h_onTapDetected (initialPlayer sampleProps) SINGLE_TAP None)))"

text \<open>The retry count the render configures on the native video element, if any.\<close>

definition configuredRetry :: "player \<Rightarrow> nat option" where
  "configuredRetry s =
     (case renderVideo s of Inr (Some v) \<Rightarrow> minLoadRetryCount v | _ \<Rightarrow> None)"

text \<open>The playlist invariant \<open>0 <= currentIndex <= items.length - 1\<close>, the current
  index and the number of items.\<close>

definition inBounds :: "player \<Rightarrow> bool" where
  "inBounds s =
     (case playList s of
        None \<Rightarrow> False
      | Some pl \<Rightarrow>
          (case (currentIndex pl, items pl) of
             (Some i, Some xs) \<Rightarrow> 0 \<le> i \<and> i \<le> int (length xs) - 1
           | _ \<Rightarrow> False))"

definition indexOfPlayer :: "player \<Rightarrow> int option" where
  "indexOfPlayer s = (case playList s of None \<Rightarrow> None | Some pl \<Rightarrow> currentIndex pl)"

definition itemCount :: "player \<Rightarrow> int" where
  "itemCount s =
     (case playList s of
        None \<Rightarrow> 0
      | Some pl \<Rightarrow> (case items pl of None \<Rightarrow> 0 | Some xs \<Rightarrow> int (length xs)))"

text \<open>
  A host that passes no config (the hide mode is then \<open>'touch'\<close>), and the players of
  the two hosts along a run: after the tap that shows the main controls, after the effect
  that follows the render, and after a second tap with its hide animation ended.
\<close>

definition touchProps :: NexenPlayerProps where
  "touchProps = sampleProps\<lparr>playerConfig := None\<rparr>"

definition controlsShown :: player where
  "controlsShown = fst (h_onTapDetected (initialPlayer sampleProps) SINGLE_TAP None)"

definition timerPending :: player where
  "timerPending = fst (effect_showControl controlsShown)"

definition controlsHidden :: player where
  "controlsHidden = settle (h_onTapDetected timerPending SINGLE_TAP None)"

definition touchShown :: player where
  "touchShown = fst (h_onTapDetected (initialPlayer touchProps) SINGLE_TAP None)"

text \<open>
  The run of the host of \<open>sampleProps\<close> continued from \<open>timerPending\<close> another way:
  with the main controls shown the user presses the aspect-ratio button, which changes
  \<open>nexenConfig\<close>, a dependency of the effect, so the effect runs again after the render;
  then a tap hides the controls.
\<close>

definition ratioPressed :: player where
  "ratioPressed = fst (h_onAspectRatioPress timerPending)"

definition rescheduled :: player where
  "rescheduled = fst (effect_showControl ratioPressed)"

definition hiddenAgain :: player where
  "hiddenAgain = settle (h_onTapDetected rescheduled SINGLE_TAP None)"

text \<open>A result that leaves the timer queue and the handle alone and calls neither
  \<open>setTimeout\<close> nor \<open>clearTimeout\<close>.\<close>

definition timerNeutral :: "player \<Rightarrow> player \<times> effect list \<Rightarrow> bool" where
  "timerNeutral s r =
     (pendingTimers (fst r) = pendingTimers s
      \<and> set (snd r) \<inter> (range (\<lambda>(h, d). SetTimeout h d) \<union> range ClearTimeout) = {})"

section \<open>Verified properties\<close>

text \<open>
  C7. Every field of the initial effective config is the fixed default where the host
  omits the key (for \<open>index\<close>, \<open>activeIndex\<close>, \<open>optimize\<close> and \<open>disableAirplay\<close>
  the object literal has no entry, so the omitted field stays unset) and what the host
  supplied where the key is there, be it a value or \<open>undefined\<close>; the initial
  \<open>paused\<close> cell is the negation of the effective \<open>autoPlay\<close> flag.
\<close>

theorem config_defaulting:
  "defaulted (Some ''Loading...'') (hostField props p_loaderText)
     (loaderText (nexenConfig (initialPlayer props)))
 \<and> defaulted (Some ''Error...!'') (hostField props p_errorText)
     (errorText (nexenConfig (initialPlayer props)))
 \<and> defaulted (Some 300) (hostField props p_doubleTapTime)
     (doubleTapTime (nexenConfig (initialPlayer props)))
 \<and> defaulted (Some 5000) (hostField props p_controlTimeout)
     (controlTimeout (nexenConfig (initialPlayer props)))
 \<and> defaulted (Some Touch) (hostField props p_controlHideMode)
     (controlHideMode (nexenConfig (initialPlayer props)))
 \<and> defaulted (Some Intermediate) (hostField props p_layoutMode)
     (layoutMode (nexenConfig (initialPlayer props)))
 \<and> defaulted (Some Cover) (hostField props p_posterResizeMode)
     (posterResizeMode (nexenConfig (initialPlayer props)))
 \<and> defaulted (Some Contain) (hostField props p_resizeMode)
     (resizeMode (nexenConfig (initialPlayer props)))
 \<and> defaulted (Some 80) (hostField props p_volume)
     (volume (nexenConfig (initialPlayer props)))
 \<and> defaulted (Some 25) (hostField props p_brightness)
     (brightness (nexenConfig (initialPlayer props)))
 \<and> defaulted (Some S10) (hostField props p_playbackSpeed)
     (playbackSpeed (nexenConfig (initialPlayer props)))
 \<and> defaulted (Some False) (hostField props p_muted)
     (muted (nexenConfig (initialPlayer props)))
 \<and> defaulted (Some False) (hostField props p_repeat)
     (repeat (nexenConfig (initialPlayer props)))
 \<and> defaulted (Some False) (hostField props p_autoPlay)
     (autoPlay (nexenConfig (initialPlayer props)))
 \<and> defaulted (None) (hostField props p_index)
     (index (nexenConfig (initialPlayer props)))
 \<and> defaulted (None) (hostField props p_activeIndex)
     (activeIndex (nexenConfig (initialPlayer props)))
 \<and> defaulted (None) (hostField props p_optimize)
     (optimize (nexenConfig (initialPlayer props)))
 \<and> defaulted (Some False) (hostField props p_disableOnScreenPlayButton)
     (disableOnScreenPlayButton (nexenConfig (initialPlayer props)))
 \<and> defaulted (Some False) (hostField props p_disableBack)
     (disableBack (nexenConfig (initialPlayer props)))
 \<and> defaulted (Some False) (hostField props p_disableResizeMode)
     (disableResizeMode (nexenConfig (initialPlayer props)))
 \<and> defaulted (Some False) (hostField props p_disableVolume)
     (disableVolume (nexenConfig (initialPlayer props)))
 \<and> defaulted (Some False) (hostField props p_disableMore)
     (disableMore (nexenConfig (initialPlayer props)))
 \<and> defaulted (Some False) (hostField props p_disableSkip)
     (disableSkip (nexenConfig (initialPlayer props)))
 \<and> defaulted (Some False) (hostField props p_disableStop)
     (disableStop (nexenConfig (initialPlayer props)))
 \<and> defaulted (Some False) (hostField props p_disableFullscreen)
     (disableFullscreen (nexenConfig (initialPlayer props)))
 \<and> defaulted (Some False) (hostField props p_disablePlayList)
     (disablePlayList (nexenConfig (initialPlayer props)))
 \<and> defaulted (Some False) (hostField props p_disableSubtitle)
     (disableSubtitle (nexenConfig (initialPlayer props)))
 \<and> defaulted (None) (hostField props p_disableAirplay)
     (disableAirplay (nexenConfig (initialPlayer props)))
 \<and> paused (initialPlayer props) = (\<not> truthy (autoPlay (nexenConfig (initialPlayer props))))"
  by (cases "playerConfig props")
     (simp_all add: initialPlayer_def initialConfig_def spreadConfig_def defaultConfig_def
        hostField_def defaulted_def over_def)

text \<open>The host of \<open>sampleProps\<close>: the supplied volume wins, the omitted brightness is
  defaulted, and auto-play starts the player unpaused. The host of \<open>undefinedProps\<close>:
  the supplied \<open>undefined\<close> wins over the default resize mode, and the player starts
  paused.\<close>

theorem config_defaulting_witness:
  "hostField sampleProps p_volume = Some (Some 30)
   \<and> volume (nexenConfig (initialPlayer sampleProps)) = Some 30
   \<and> hostField sampleProps p_brightness = None
   \<and> brightness (nexenConfig (initialPlayer sampleProps)) = Some 25
   \<and> paused (initialPlayer sampleProps) = False
   \<and> hostField undefinedProps p_resizeMode = Some None
   \<and> resizeMode (nexenConfig (initialPlayer undefinedProps)) = None
   \<and> hostField undefinedProps p_volume = None
   \<and> volume (nexenConfig (initialPlayer undefinedProps)) = Some 80
   \<and> paused (initialPlayer undefinedProps) = True"
  using config_defaulting [of sampleProps] config_defaulting [of undefinedProps]
  by (simp add: defaulted_def hostField_def sampleProps_def undefinedProps_def emptyConfig_def
      truthy_def initialPlayer_def initialConfig_def spreadConfig_def defaultConfig_def over_def)

subsection \<open>Traces\<close>

lemma hostCalls_opt [simp]: "hostCalls (opt b es) = (if b then hostCalls es else [])"
  by (simp add: opt_def)

lemma hostCalls_append [simp]: "hostCalls (xs @ ys) = hostCalls xs @ hostCalls ys"
  by (induction xs rule: hostCalls.induct) simp_all

subsection \<open>Drag gestures\<close>

text \<open>
  C1. A drag gesture that ends with value \<open>v\<close>. VOLUME: the config's volume becomes
  \<open>v\<close> and nothing else of the state changes, the mounted video element has its volume
  prop set to \<open>v / 100\<close> (once), and the host's \<open>onVolumeUpdate\<close>, when passed, is
  the only callback called, with \<open>v\<close>. BRIGHTNESS: the config's brightness becomes
  \<open>v\<close>, the system brightness is set to \<open>v / 100\<close>, and \<open>onBrightnessUpdate\<close> is
  called with \<open>v\<close>. TRACK: the mounted video element is asked to seek to \<open>v\<close> and the
  displayed track time becomes \<open>v\<close>.
\<close>

theorem gesture_end_mediation:
  "fst (h_onGestureEnd props s VOLUME v) = s\<lparr>nexenConfig := (nexenConfig s)\<lparr>volume := Some v\<rparr>\<rparr>
   \<and> volume (nexenConfig (fst (h_onGestureEnd props s VOLUME v))) = Some v
   \<and> (videoMounted s \<longrightarrow>
        filter (\<lambda>e. e \<in> range VideoSetVolume) (snd (h_onGestureEnd props s VOLUME v))
          = [VideoSetVolume (v / 100)])
   \<and> (onVolumeUpdate props \<longrightarrow>
        hostCalls (snd (h_onGestureEnd props s VOLUME v)) = [OnVolumeUpdate v])
   \<and> fst (h_onGestureEnd props s BRIGHTNESS v)
        = s\<lparr>nexenConfig := (nexenConfig s)\<lparr>brightness := Some v\<rparr>\<rparr>
   \<and> brightness (nexenConfig (fst (h_onGestureEnd props s BRIGHTNESS v))) = Some v
   \<and> filter (\<lambda>e. e \<in> range SetBrightness) (snd (h_onGestureEnd props s BRIGHTNESS v))
        = [SetBrightness (v / 100)]
   \<and> (onBrightnessUpdate props \<longrightarrow>
        hostCalls (snd (h_onGestureEnd props s BRIGHTNESS v)) = [OnBrightnessUpdate v])
   \<and> fst (h_onGestureEnd props s TRACK v) = s\<lparr>trackInfo := (trackInfo s)\<lparr>trackTime := v\<rparr>\<rparr>
   \<and> trackTime (trackInfo (fst (h_onGestureEnd props s TRACK v))) = v
   \<and> (videoMounted s \<longrightarrow> snd (h_onGestureEnd props s TRACK v) = [VideoSeek v])"
  by (auto simp: opt_def seekTo_def)

text \<open>A drag to 50 on the freshly mounted player of \<open>sampleProps\<close>.\<close>

theorem gesture_end_mediation_witness:
  "videoMounted (initialPlayer sampleProps) \<and> onVolumeUpdate sampleProps
   \<and> onBrightnessUpdate sampleProps
   \<and> snd (h_onGestureEnd sampleProps (initialPlayer sampleProps) VOLUME 50)
        = [VideoSetVolume (1 / 2), Host (OnVolumeUpdate 50)]
   \<and> volume (nexenConfig (fst (h_onGestureEnd sampleProps (initialPlayer sampleProps) VOLUME 50)))
        = Some 50
   \<and> snd (h_onGestureEnd sampleProps (initialPlayer sampleProps) BRIGHTNESS 50)
        = [SetBrightness (1 / 2), Host (OnBrightnessUpdate 50)]
   \<and> snd (h_onGestureEnd sampleProps (initialPlayer sampleProps) TRACK 50) = [VideoSeek 50]"
  using gesture_end_mediation [of sampleProps "initialPlayer sampleProps" 50]
  by (simp add: opt_def seekTo_def videoMounted_def truthy_def sampleProps_def emptyConfig_def
      initialPlayer_def initialConfig_def spreadConfig_def defaultConfig_def over_def)

subsection \<open>Load errors\<close>

text \<open>
  C3. On a load error of the native element the \<open>error\<close> cell becomes true, no other
  cell or ref changes, and the trace is the call of the host's \<open>onError\<close> with the
  error's \<open>errorString\<close> when the host passed the callback, and empty otherwise.
\<close>

theorem load_error_surfaced:
  "fst (h_onError props s e) = s\<lparr>error := True\<rparr>
   \<and> error (fst (h_onError props s e)) = True
   \<and> snd (h_onError props s e)
        = (if onError props then [Host (OnError (errorString e))] else [])"
  by (simp add: h_onError_def opt_def)

subsection \<open>Rewind and fast-forward\<close>

text \<open>
  C10. Rewind sets the displayed track time, and the time the mounted video element is
  asked to seek to, to the current track time minus 10, whatever the result: below 10 the
  requested time is negative. Fast-forward adds 10 likewise, and within 10 of the total
  duration the new track time lies beyond it.
\<close>

theorem rewind_forward_unclamped:
  "trackTime (trackInfo (fst (h_onRewind s))) = trackTime (trackInfo s) - 10
   \<and> (videoMounted s \<longrightarrow> snd (h_onRewind s) = [VideoSeek (trackTime (trackInfo s) - 10)])
   \<and> (trackTime (trackInfo s) < 10 \<longrightarrow> trackTime (trackInfo (fst (h_onRewind s))) < 0)
   \<and> (trackTime (trackInfo s) < 10 \<longrightarrow> videoMounted s \<longrightarrow>
        (\<exists>t < 0. snd (h_onRewind s) = [VideoSeek t]))
   \<and> trackTime (trackInfo (fst (h_onFastForward s))) = trackTime (trackInfo s) + 10
   \<and> (videoMounted s \<longrightarrow>
        snd (h_onFastForward s) = [VideoSeek (trackTime (trackInfo s) + 10)])
   \<and> (totalTrackTime (trackInfo s) - 10 < trackTime (trackInfo s) \<longrightarrow>
        totalTrackTime (trackInfo (fst (h_onFastForward s)))
          < trackTime (trackInfo (fst (h_onFastForward s))))"
  by (auto simp: h_onRewind_def h_onFastForward_def seekTo_def opt_def Let_def
      FORWARD_OR_REWIND_DURATION_def)

text \<open>The freshly mounted player is at time 0 of a track of duration 0.\<close>

theorem rewind_forward_unclamped_witness:
  "videoMounted (initialPlayer sampleProps)
   \<and> trackTime (trackInfo (initialPlayer sampleProps)) < 10
   \<and> snd (h_onRewind (initialPlayer sampleProps)) = [VideoSeek (- 10)]
   \<and> trackTime (trackInfo (fst (h_onRewind (initialPlayer sampleProps)))) = - 10
   \<and> totalTrackTime (trackInfo (initialPlayer sampleProps)) - 10
        < trackTime (trackInfo (initialPlayer sampleProps))
   \<and> snd (h_onFastForward (initialPlayer sampleProps)) = [VideoSeek 10]
   \<and> totalTrackTime (trackInfo (fst (h_onFastForward (initialPlayer sampleProps)))) = 0"
  using rewind_forward_unclamped [of "initialPlayer sampleProps"]
  by (simp add: h_onRewind_def h_onFastForward_def seekTo_def opt_def Let_def
      FORWARD_OR_REWIND_DURATION_def videoMounted_def truthy_def sampleProps_def emptyConfig_def
      initialPlayer_def initialConfig_def spreadConfig_def defaultConfig_def over_def)

subsection \<open>The aspect-ratio toggle\<close>

lemma handleResizeMode_cases:
  "handleResizeMode None s = (s\<lparr>nexenConfig := (nexenConfig s)\<lparr>resizeMode := Some Contain\<rparr>\<rparr>, [])"
  "handleResizeMode (Some Contain) s =
     (s\<lparr>nexenConfig := (nexenConfig s)\<lparr>resizeMode := Some Cover\<rparr>\<rparr>, [])"
  "handleResizeMode (Some Cover) s =
     (s\<lparr>nexenConfig := (nexenConfig s)\<lparr>resizeMode := Some Stretch\<rparr>\<rparr>, [])"
  "handleResizeMode (Some Stretch) s =
     (s\<lparr>nexenConfig := (nexenConfig s)\<lparr>resizeMode := Some Contain\<rparr>\<rparr>, [])"
  by (simp_all add: handleResizeMode_def RESIZE_MODE_VALUES_def elemAt_def)

lemma press_state:
  "h_onAspectRatioPress s =
     (s\<lparr>nexenConfig := (nexenConfig s)\<lparr>resizeMode :=
        (case resizeMode (nexenConfig s) of
          Some Contain \<Rightarrow> Some Cover | Some Cover \<Rightarrow> Some Stretch | _ \<Rightarrow> Some Contain)\<rparr>\<rparr>, [])"
proof (cases "resizeMode (nexenConfig s)")
  case None
  then show ?thesis by (simp add: h_onAspectRatioPress_def handleResizeMode_cases)
next
  case (Some m)
  then show ?thesis by (cases m) (simp_all add: h_onAspectRatioPress_def handleResizeMode_cases)
qed

lemma press3_state:
  "resizeMode (nexenConfig s) = Some m \<Longrightarrow>
   press3 s = s\<lparr>nexenConfig := (nexenConfig s)\<lparr>resizeMode := Some m\<rparr>\<rparr>"
  by (cases m) (simp_all add: press3_def press_state)

text \<open>
  C9. The toggle steps contain to cover, cover to stretch and stretch to contain, so
  three presses from any of the three modes give back the state they started from.
\<close>

theorem resize_mode_cycle:
  "(resizeMode (nexenConfig s) = Some Contain \<longrightarrow>
      resizeMode (nexenConfig (fst (h_onAspectRatioPress s))) = Some Cover)
   \<and> (resizeMode (nexenConfig s) = Some Cover \<longrightarrow>
      resizeMode (nexenConfig (fst (h_onAspectRatioPress s))) = Some Stretch)
   \<and> (resizeMode (nexenConfig s) = Some Stretch \<longrightarrow>
      resizeMode (nexenConfig (fst (h_onAspectRatioPress s))) = Some Contain)
   \<and> (resizeMode (nexenConfig s) \<in> set RESIZE_MODE_VALUES \<longrightarrow> press3 s = s)"
proof -
  have same: "s\<lparr>nexenConfig := (nexenConfig s)\<lparr>resizeMode := resizeMode (nexenConfig s)\<rparr>\<rparr> = s"
    by simp
  have three: "press3 s = s" if "resizeMode (nexenConfig s) = Some m" for m
  proof -
    have "press3 s = s\<lparr>nexenConfig := (nexenConfig s)\<lparr>resizeMode := Some m\<rparr>\<rparr>"
      using that by (rule press3_state)
    also have "\<dots> = s" using same that by simp
    finally show ?thesis .
  qed
  have "resizeMode (nexenConfig s) \<in> set RESIZE_MODE_VALUES \<longrightarrow> press3 s = s"
    using three by (auto simp: RESIZE_MODE_VALUES_def)
  then show ?thesis
    by (simp add: press_state)
qed

text \<open>The default mode is contain.\<close>

theorem resize_mode_cycle_witness:
  "resizeMode (nexenConfig (initialPlayer sampleProps)) = Some Contain
   \<and> resizeMode (nexenConfig (initialPlayer sampleProps)) \<in> set RESIZE_MODE_VALUES
   \<and> resizeMode (nexenConfig (fst (h_onAspectRatioPress (initialPlayer sampleProps)))) = Some Cover
   \<and> press3 (initialPlayer sampleProps) = initialPlayer sampleProps"
  using resize_mode_cycle [of "initialPlayer sampleProps"]
  by (simp add: RESIZE_MODE_VALUES_def sampleProps_def emptyConfig_def
      initialPlayer_def initialConfig_def spreadConfig_def defaultConfig_def over_def)

subsection \<open>Single taps\<close>

text \<open>
  C2, as stated, fails: with the More panel open the main controls are hidden, and a single
  tap closes the panel and leaves them hidden.
\<close>

theorem single_tap_with_open_panel:
  "\<not> showControl morePanelOpen
   \<and> showMoreControl morePanelOpen
   \<and> \<not> showControl (settle (h_onTapDetected morePanelOpen SINGLE_TAP None))"
  by (simp add: morePanelOpen_def h_onMorePress_def showMoreOptions_def hideMainControl_def
      showMainControl_def hideMoreOptions_def opt_def initialPlayer_def)

text \<open>
  C2, amended. A single tap toggles the visibility of the main controls (the hiding takes
  effect when the hide animation ends) when none of the More, speed, track and playlist
  panels is open; with one of them open the tap leaves the main controls as they are and
  closes the first open panel in the order More, speed, track, playlist.
\<close>

theorem single_tap_toggle:
  "(\<not> showMoreControl s \<and> \<not> showSpeedControl s \<and> \<not> showTrackControl s
      \<and> \<not> showPlaylistControl s \<longrightarrow>
      showControl (settle (h_onTapDetected s SINGLE_TAP v)) = (\<not> showControl s))
   \<and> (showMoreControl s \<or> showSpeedControl s \<or> showTrackControl s \<or> showPlaylistControl s \<longrightarrow>
      showControl (settle (h_onTapDetected s SINGLE_TAP v)) = showControl s)
   \<and> (showMoreControl s \<longrightarrow> \<not> showMoreControl (settle (h_onTapDetected s SINGLE_TAP v)))
   \<and> (\<not> showMoreControl s \<and> showSpeedControl s \<longrightarrow>
      \<not> showSpeedControl (settle (h_onTapDetected s SINGLE_TAP v)))
   \<and> (\<not> showMoreControl s \<and> \<not> showSpeedControl s \<and> showTrackControl s \<longrightarrow>
      \<not> showTrackControl (settle (h_onTapDetected s SINGLE_TAP v)))
   \<and> (\<not> showMoreControl s \<and> \<not> showSpeedControl s \<and> \<not> showTrackControl s
        \<and> showPlaylistControl s \<longrightarrow>
      \<not> showPlaylistControl (settle (h_onTapDetected s SINGLE_TAP v)))"
  by (auto simp: hideMainControl_def showMainControl_def hideMoreOptions_def
      hidePlaybackSpeedControl_def hideSubtitleTrackControl_def hideVideoListControl_def opt_def)

text \<open>The freshly mounted player, and the player with the More panel open.\<close>

theorem single_tap_toggle_witness:
  "\<not> showMoreControl (initialPlayer sampleProps)
   \<and> \<not> showSpeedControl (initialPlayer sampleProps)
   \<and> \<not> showTrackControl (initialPlayer sampleProps)
   \<and> \<not> showPlaylistControl (initialPlayer sampleProps)
   \<and> \<not> showControl (initialPlayer sampleProps)
   \<and> showControl (settle (h_onTapDetected (initialPlayer sampleProps) SINGLE_TAP None))
   \<and> showMoreControl morePanelOpen
   \<and> \<not> showMoreControl (settle (h_onTapDetected morePanelOpen SINGLE_TAP None))"
  using single_tap_toggle [of "initialPlayer sampleProps" None]
    single_tap_toggle [of morePanelOpen None]
  by (simp add: morePanelOpen_def h_onMorePress_def showMoreOptions_def hideMainControl_def
      showMainControl_def hideMoreOptions_def opt_def initialPlayer_def)

subsection \<open>No recovery after a load error\<close>

text \<open>
  C4, as stated, fails: after a load error on the player of \<open>sampleProps\<close> the render
  still configures the native video element with a retry count of 1000.
\<close>

theorem retry_configured_after_error:
  "configuredRetry (fst (h_onError sampleProps (initialPlayer sampleProps) sampleError))
     = Some 1000"
  by (simp add: configuredRetry_def renderVideo_def newSource_def commonVideoProps_def
      h_onError_def truthy_def sampleProps_def emptyConfig_def sampleSource_def
      initialPlayer_def initialConfig_def spreadConfig_def defaultConfig_def over_def)

lemma newSource_error_cell: "newSource (s\<lparr>error := b\<rparr>) = newSource s"
  by (simp add: newSource_def split: option.splits)

lemma commonVideoProps_error_cell:
  "commonVideoProps (s\<lparr>error := b\<rparr>) src = commonVideoProps s src"
  by (simp add: commonVideoProps_def)

lemma renderVideo_error_cell: "renderVideo (s\<lparr>error := b\<rparr>) = renderVideo s"
  by (simp add: renderVideo_def newSource_error_cell commonVideoProps_error_cell
      split: sum.splits)

lemma renderVideo_retry:
  "renderVideo s = Inr (Some v) \<Longrightarrow>
   minLoadRetryCount v = (if truthy (optimize (nexenConfig s)) then None else Some 1000)"
  by (auto simp: renderVideo_def commonVideoProps_def split: sum.splits if_splits)

text \<open>
  C4, amended. The error handler changes the \<open>error\<close> cell only, calls nothing but the
  host's \<open>onError\<close>, and leaves the rendered video element as it was; the element is
  given \<open>minLoadRetryCount = 1000\<close> whenever the config's \<open>optimize\<close> flag is falsy
  and no retry count in the optimised mode.
\<close>

theorem load_error_no_recovery:
  "fst (h_onError props s e) = s\<lparr>error := True\<rparr>
   \<and> set (snd (h_onError props s e)) \<subseteq> {Host (OnError (errorString e))}
   \<and> renderVideo (fst (h_onError props s e)) = renderVideo s
   \<and> (\<forall>v. renderVideo s = Inr (Some v) \<longrightarrow>
         minLoadRetryCount v
           = (if truthy (optimize (nexenConfig s)) then None else Some 1000))"
proof -
  have "fst (h_onError props s e) = s\<lparr>error := True\<rparr>"
    by (simp add: h_onError_def)
  moreover have "set (snd (h_onError props s e)) \<subseteq> {Host (OnError (errorString e))}"
    by (auto simp: h_onError_def opt_def)
  moreover have "renderVideo (fst (h_onError props s e)) = renderVideo s"
    by (simp add: h_onError_def renderVideo_error_cell)
  ultimately show ?thesis
    using renderVideo_retry [of s] by blast
qed

text \<open>The player of \<open>sampleProps\<close> is not in the optimised mode.\<close>

theorem load_error_no_recovery_witness:
  "map_sum id (map_option minLoadRetryCount) (renderVideo (initialPlayer sampleProps))
     = Inr (Some (Some 1000))
   \<and> \<not> truthy (optimize (nexenConfig (initialPlayer sampleProps)))
   \<and> snd (h_onError sampleProps (initialPlayer sampleProps) sampleError)
       = [Host (OnError ''Unrecognized media format'')]"
  using load_error_no_recovery [of sampleProps "initialPlayer sampleProps" sampleError]
  by (simp add: renderVideo_def newSource_def commonVideoProps_def sampleError_def
      h_onError_def opt_def truthy_def sampleProps_def emptyConfig_def sampleSource_def
      initialPlayer_def initialConfig_def spreadConfig_def defaultConfig_def over_def)

subsection \<open>Skipping in the playlist\<close>

text \<open>
  C8. With \<open>0 <= currentIndex <= items.length - 1\<close>, skip-next and skip-back keep the
  bound and the items: skip-next adds one exactly when the index is below
  \<open>items.length - 1\<close>, skip-back subtracts one exactly when it is above 0, and the
  host's \<open>onSkipNext\<close> (\<open>onSkipBack\<close>), when passed, is called exactly when the
  index changes, with the new index.
\<close>

theorem skip_preserves_bounds:
  assumes "playList s = Some pl" and "items pl = Some xs" and "currentIndex pl = Some i"
    and "0 \<le> i" and "i \<le> int (length xs) - 1"
  shows "inBounds (fst (h_onSkipNext props s))
   \<and> itemCount (fst (h_onSkipNext props s)) = itemCount s
   \<and> indexOfPlayer (fst (h_onSkipNext props s))
        = Some (if i < int (length xs) - 1 then i + 1 else i)
   \<and> snd (h_onSkipNext props s)
        = (if i < int (length xs) - 1 \<and> onSkipNext props then [Host (OnSkipNext (i + 1))] else [])
   \<and> inBounds (fst (h_onSkipBack props s))
   \<and> itemCount (fst (h_onSkipBack props s)) = itemCount s
   \<and> indexOfPlayer (fst (h_onSkipBack props s)) = Some (if 0 < i then i - 1 else i)
   \<and> snd (h_onSkipBack props s)
        = (if 0 < i \<and> onSkipBack props then [Host (OnSkipBack (i - 1))] else [])"
  using assms
  by (auto simp: h_onSkipNext_def h_onSkipBack_def inBounds_def indexOfPlayer_def itemCount_def
      opt_def Let_def)


text \<open>The second of three items.\<close>

theorem skip_preserves_bounds_witness:
  "playList (initialPlayer sampleProps)
     = Some \<lparr> items = Some [sampleSource ''a.mp4'', sampleSource ''b.mp4'', sampleSource ''c.mp4''],
              currentIndex = Some 1 \<rparr>
   \<and> (0::int) \<le> 1
   \<and> (1::int) \<le> int (length [sampleSource ''a.mp4'', sampleSource ''b.mp4'', sampleSource ''c.mp4'']) - 1
   \<and> indexOfPlayer (fst (h_onSkipNext sampleProps (initialPlayer sampleProps))) = Some 2
   \<and> snd (h_onSkipNext sampleProps (initialPlayer sampleProps)) = [Host (OnSkipNext 2)]
   \<and> indexOfPlayer (fst (h_onSkipBack sampleProps (initialPlayer sampleProps))) = Some 0
   \<and> snd (h_onSkipBack sampleProps (initialPlayer sampleProps)) = [Host (OnSkipBack 0)]
   \<and> inBounds (fst (h_onSkipNext sampleProps (initialPlayer sampleProps)))"
  using skip_preserves_bounds [where s = "initialPlayer sampleProps" and props = sampleProps
      and i = 1
      and xs = "[sampleSource ''a.mp4'', sampleSource ''b.mp4'', sampleSource ''c.mp4'']"
      and pl = "\<lparr> items = Some [sampleSource ''a.mp4'', sampleSource ''b.mp4'',
                                  sampleSource ''c.mp4''],
                   currentIndex = Some 1 \<rparr>"]
  by (simp add: sampleProps_def initialPlayer_def)

subsection \<open>The imperative handle\<close>

lemma ref_keys_range: "range ref_key = set NexenPlayerRef_keys"
proof
  show "range ref_key \<subseteq> set NexenPlayerRef_keys"
  proof
    fix k assume "k \<in> range ref_key"
    then obtain c where "k = ref_key c" by blast
    then show "k \<in> set NexenPlayerRef_keys"
      by (cases c) (simp_all add: NexenPlayerRef_keys_def)
  qed
  have "ref_key c \<in> range ref_key" for c by simp
  from this [of Play] this [of Pause] this [of Stop] this [of SkipNext] this [of SkipBack]
    this [of "SetFullScreenMode True"]
  show "set NexenPlayerRef_keys \<subseteq> range ref_key"
    by (simp add: NexenPlayerRef_keys_def)
qed

text \<open>
  C6. The handle has exactly the keys play, pause, stop, skipNext, skipBack and
  setFullScreenMode. \<open>play\<close> clears the \<open>paused\<close> cell and \<open>pause\<close> sets it, changing
  nothing else; stop and the two skips are the handlers of the corresponding buttons;
  \<open>setFullScreenMode(f)\<close> sets the \<open>fullScreen\<close> cell to \<open>f\<close> and calls the host's
  \<open>onFullScreenModeUpdate\<close>, when passed, with \<open>f\<close> and the config's index in the
  optimised mode, the playlist's current index otherwise.
\<close>

theorem imperative_handle:
  "range ref_key = set NexenPlayerRef_keys
   \<and> NexenPlayerRef_keys
       = [''play'', ''pause'', ''stop'', ''skipNext'', ''skipBack'', ''setFullScreenMode'']
   \<and> imperativeHandle props s Play = (s\<lparr>paused := False\<rparr>, [])
   \<and> paused (fst (imperativeHandle props s Play)) = False
   \<and> imperativeHandle props s Pause = (s\<lparr>paused := True\<rparr>, [])
   \<and> paused (fst (imperativeHandle props s Pause)) = True
   \<and> imperativeHandle props s Stop = handleStopPlayback props s
   \<and> imperativeHandle props s SkipNext = h_onSkipNext props s
   \<and> imperativeHandle props s SkipBack = h_onSkipBack props s
   \<and> fst (imperativeHandle props s (SetFullScreenMode f)) = s\<lparr>fullScreen := f\<rparr>
   \<and> fullScreen (fst (imperativeHandle props s (SetFullScreenMode f))) = f
   \<and> snd (imperativeHandle props s (SetFullScreenMode f))
       = (if onFullScreenModeUpdate props
          then [Host (OnFullScreenModeUpdate f
                  (if truthy (optimize (nexenConfig s)) then index (nexenConfig s)
                   else (case playList s of None \<Rightarrow> None | Some pl \<Rightarrow> currentIndex pl)))]
          else [])"
  using ref_keys_range by (simp add: NexenPlayerRef_keys_def opt_def reportedIndex_def)

text \<open>The host of \<open>sampleProps\<close> asks for full screen while the second item plays.\<close>

theorem imperative_handle_witness:
  "onFullScreenModeUpdate sampleProps
   \<and> snd (imperativeHandle sampleProps (initialPlayer sampleProps) (SetFullScreenMode True))
       = [Host (OnFullScreenModeUpdate True (Some 1))]
   \<and> fullScreen (fst (imperativeHandle sampleProps (initialPlayer sampleProps)
         (SetFullScreenMode True)))
   \<and> paused (fst (imperativeHandle sampleProps (initialPlayer sampleProps) Pause))"
  using imperative_handle [of sampleProps "initialPlayer sampleProps" True]
  by (simp add: truthy_def sampleProps_def emptyConfig_def
      initialPlayer_def initialConfig_def spreadConfig_def defaultConfig_def over_def)

subsection \<open>The auto-hide timer\<close>

lemma timerNeutral_tap: "timerNeutral s (h_onTapDetected s t v)"
  by (cases t)
     (auto simp: timerNeutral_def hideMainControl_def showMainControl_def hideMoreOptions_def
        hidePlaybackSpeedControl_def hideSubtitleTrackControl_def hideVideoListControl_def
        doubleTapSeek_def seekTo_def handleDoubleTapPlayPause_def opt_def
        split: option.splits)

lemma timerNeutral_move: "timerNeutral s (h_onGestureMove s g v)"
  by (cases g) (auto simp: timerNeutral_def seekTo_def opt_def)

lemma timerNeutral_end: "timerNeutral s (h_onGestureEnd props s g v)"
  by (cases g) (auto simp: timerNeutral_def seekTo_def opt_def)

lemma timerNeutral_error: "timerNeutral s (h_onError props s e)"
  by (auto simp: timerNeutral_def h_onError_def opt_def)

lemma timerNeutral_skipNext: "timerNeutral s (h_onSkipNext props s)"
  by (auto simp: timerNeutral_def h_onSkipNext_def opt_def Let_def split: option.splits)

lemma timerNeutral_skipBack: "timerNeutral s (h_onSkipBack props s)"
  by (auto simp: timerNeutral_def h_onSkipBack_def opt_def Let_def split: option.splits)

lemma timerNeutral_stop: "timerNeutral s (handleStopPlayback props s)"
  by (auto simp: timerNeutral_def handleStopPlayback_def opt_def Let_def)

lemma timerNeutral_handle: "timerNeutral s (imperativeHandle props s c)"
proof (cases c)
  case (SetFullScreenMode f)
  then show ?thesis by (auto simp: timerNeutral_def opt_def)
qed (simp_all add: timerNeutral_skipNext timerNeutral_skipBack timerNeutral_stop,
     simp_all add: timerNeutral_def)

lemma timerNeutral_aspect: "timerNeutral s (h_onAspectRatioPress s)"
  by (simp add: timerNeutral_def press_state)

lemma timerNeutral_more: "timerNeutral s (h_onMorePress s)"
  by (auto simp: timerNeutral_def h_onMorePress_def showMoreOptions_def hideMainControl_def)

lemma timerNeutral_rewind: "timerNeutral s (h_onRewind s)"
  by (auto simp: timerNeutral_def h_onRewind_def seekTo_def opt_def Let_def)

lemma timerNeutral_forward: "timerNeutral s (h_onFastForward s)"
  by (auto simp: timerNeutral_def h_onFastForward_def seekTo_def opt_def Let_def)

lemma timerNeutral_animation: "timerNeutral s (animationEnd p s, [])"
  by (cases p) (simp_all add: timerNeutral_def)

lemma clearControlTimeout_pending:
  "pendingTimers (fst (clearControlTimeout s))
     = (case controlTimeoutRef s of
          None \<Rightarrow> pendingTimers s
        | Some h \<Rightarrow> filter (\<lambda>t. fst t \<noteq> h) (pendingTimers s))"
  "snd (clearControlTimeout s)
     = (case controlTimeoutRef s of None \<Rightarrow> [] | Some h \<Rightarrow> [ClearTimeout h])"
  by (simp_all add: clearControlTimeout_def split: option.splits)

lemma effect_showControl_pending:
  "pendingTimers (fst (effect_showControl s))
     = (if controlHideMode (nexenConfig s) = Some Auto
        then (if showControl s
              then pendingTimers s @ [(Handle (nextTimer s), controlTimeout (nexenConfig s))]
              else pendingTimers (fst (clearControlTimeout s)))
        else pendingTimers s)"
  by (simp add: effect_showControl_def setControlTimeout_def clearControlTimeout_def Let_def
      split: option.splits)

lemma effect_showControl_trace:
  "set (snd (effect_showControl s)) \<inter> (range (\<lambda>(h, d). SetTimeout h d) \<union> range ClearTimeout)
     = (if controlHideMode (nexenConfig s) = Some Auto
        then (if showControl s
              then {SetTimeout (Handle (nextTimer s)) (controlTimeout (nexenConfig s))}
              else set (snd (clearControlTimeout s)))
        else {})"
  by (auto simp: effect_showControl_def setControlTimeout_def clearControlTimeout_def Let_def
      opt_def split: option.splits)


lemma timerNeutralD:
  assumes "timerNeutral s r"
  shows "pendingTimers (fst r) = pendingTimers s"
    and "SetTimeout h d \<notin> set (snd r)"
    and "ClearTimeout h \<notin> set (snd r)"
proof -
  show "pendingTimers (fst r) = pendingTimers s"
    using assms by (simp add: timerNeutral_def)
  have "SetTimeout h d \<in> range (\<lambda>(h, d). SetTimeout h d)"
    by (rule range_eqI [of _ _ "(h, d)"]) simp
  then show "SetTimeout h d \<notin> set (snd r)"
    using assms unfolding timerNeutral_def by blast
  show "ClearTimeout h \<notin> set (snd r)"
    using assms unfolding timerNeutral_def by blast
qed

lemma step_neutral:
  "timerNeutral s (step props ev s)
   \<or> ev = EffectShowControl \<or> ev = Unmount \<or> (\<exists>h. ev = TimerFired h)"
  by (cases ev)
     (simp_all add: timerNeutral_tap timerNeutral_move timerNeutral_end timerNeutral_error
        timerNeutral_handle timerNeutral_aspect timerNeutral_more timerNeutral_rewind
        timerNeutral_forward timerNeutral_skipNext timerNeutral_skipBack timerNeutral_stop
        timerNeutral_animation)

lemma timerFired_pending:
  "pendingTimers (fst (timerFired h s)) = filter (\<lambda>t. fst t \<noteq> h) (pendingTimers s)"
proof (cases "h \<in> fst ` set (pendingTimers s)")
  case True
  then show ?thesis by (simp add: timerFired_def hideMainControl_def)
next
  case False
  then have "filter (\<lambda>t. fst t \<noteq> h) (pendingTimers s) = pendingTimers s"
    by (intro filter_True) force
  with False show ?thesis by (simp add: timerFired_def)
qed

lemma timerFired_trace:
  "snd (timerFired h s)
     = (if h \<in> fst ` set (pendingTimers s) then [HideAnimation MainPanel] else [])"
  by (simp add: timerFired_def hideMainControl_def)

lemma unmount_pending:
  "pendingTimers (fst (unmount s)) = pendingTimers (fst (clearControlTimeout s))"
  "snd (unmount s) = [RemoveBackHandler, RemoveAppStateSubscription] @ snd (clearControlTimeout s)"
  by (simp_all add: unmount_def split_beta)

lemma effect_clear_trace:
  "\<not> showControl s \<Longrightarrow> controlHideMode (nexenConfig s) = Some Auto \<Longrightarrow>
   controlTimeoutRef s = Some h \<Longrightarrow> ClearTimeout h \<in> set (snd (effect_showControl s))"
  by (simp add: effect_showControl_def clearControlTimeout_def Let_def)

lemma step_removed:
  assumes "t \<in> set (pendingTimers s)"
    and "t \<notin> set (pendingTimers (fst (step props ev s)))"
  shows "ev = TimerFired (fst t)
         \<or> (controlTimeoutRef s = Some (fst t)
            \<and> ClearTimeout (fst t) \<in> set (snd (step props ev s)))"
proof -
  consider (neutral) "timerNeutral s (step props ev s)"
    | (effect) "ev = EffectShowControl" | (unmount) "ev = Unmount"
    | (fired) h where "ev = TimerFired h"
    using step_neutral [of s props ev] by blast
  then show ?thesis
  proof cases
    case neutral
    with assms show ?thesis by (simp add: timerNeutralD(1))
  next
    case effect
    with assms show ?thesis
      by (auto simp: effect_showControl_pending clearControlTimeout_pending effect_clear_trace
          split: if_splits option.splits)
  next
    case unmount
    with assms show ?thesis
      by (auto simp: unmount_pending clearControlTimeout_pending split: option.splits)
  next
    case (fired h)
    with assms show ?thesis by (auto simp: timerFired_pending)
  qed
qed

lemma step_touch:
  assumes "controlHideMode (nexenConfig s) = Some Touch"
  shows "set (pendingTimers (fst (step props ev s))) \<subseteq> set (pendingTimers s)"
    and "SetTimeout h d \<notin> set (snd (step props ev s))"
proof -
  consider (neutral) "timerNeutral s (step props ev s)"
    | (effect) "ev = EffectShowControl" | (unmount) "ev = Unmount"
    | (fired) h' where "ev = TimerFired h'"
    using step_neutral [of s props ev] by blast
  then have "set (pendingTimers (fst (step props ev s))) \<subseteq> set (pendingTimers s)
             \<and> SetTimeout h d \<notin> set (snd (step props ev s))"
  proof cases
    case neutral
    then show ?thesis by (simp add: timerNeutralD)
  next
    case effect
    with assms show ?thesis
      by (auto simp: effect_showControl_def Let_def opt_def)
  next
    case unmount
    then show ?thesis
      by (auto simp: unmount_pending clearControlTimeout_pending split: option.splits)
  next
    case (fired h')
    then show ?thesis by (auto simp: timerFired_pending timerFired_trace)
  qed
  then show "set (pendingTimers (fst (step props ev s))) \<subseteq> set (pendingTimers s)"
    and "SetTimeout h d \<notin> set (snd (step props ev s))"
    by simp_all
qed

lemma effect_schedules:
  assumes "showControl s" and "controlHideMode (nexenConfig s) = Some Auto"
  shows "pendingTimers (fst (effect_showControl s))
           = pendingTimers s @ [(Handle (nextTimer s), controlTimeout (nexenConfig s))]"
    and "controlTimeoutRef (fst (effect_showControl s)) = Some (Handle (nextTimer s))"
    and "SetTimeout (Handle (nextTimer s)) (controlTimeout (nexenConfig s))
           \<in> set (snd (effect_showControl s))"
    and "snd (timerFired (Handle (nextTimer s)) (fst (effect_showControl s)))
           = [HideAnimation MainPanel]"
    and "\<not> showControl (settle (timerFired (Handle (nextTimer s)) (fst (effect_showControl s))))"
  using assms
  by (simp_all add: effect_showControl_def setControlTimeout_def Let_def timerFired_def
      hideMainControl_def)

lemma effect_clears:
  assumes "\<not> showControl s" and "controlHideMode (nexenConfig s) = Some Auto"
    and "controlTimeoutRef s = Some h"
  shows "h \<notin> fst ` set (pendingTimers (fst (effect_showControl s)))"
    and "ClearTimeout h \<in> set (snd (effect_showControl s))"
  using assms
  by (auto simp: effect_showControl_pending clearControlTimeout_pending effect_clear_trace)

lemma unmount_clears:
  assumes "controlTimeoutRef s = Some h"
  shows "h \<notin> fst ` set (pendingTimers (fst (unmount s)))"
    and "ClearTimeout h \<in> set (snd (unmount s))"
  using assms
  by (auto simp: unmount_pending clearControlTimeout_pending)

text \<open>
  What the timer code achieves. In the \<open>'auto'\<close> mode the effect that runs with the main
  controls shown schedules a timer with the delay \<open>controlTimeout\<close> and keeps its handle
  in place of the one it kept before; when that timer runs it starts the hide animation, at
  whose end the main controls are hidden. In the \<open>'auto'\<close> mode the effect that runs
  with the controls hidden, and in any mode the unmount cleanup, clear the timer of the
  kept handle, and of no other. Over all events of the player, a pending timer leaves the
  queue only by running or by \<open>clearTimeout\<close> on the kept handle. In the \<open>'touch'\<close>
  mode no event schedules a timer.
\<close>

lemma auto_hide_timer:
  "(showControl s \<and> controlHideMode (nexenConfig s) = Some Auto \<longrightarrow>
      pendingTimers (fst (effect_showControl s))
        = pendingTimers s @ [(Handle (nextTimer s), controlTimeout (nexenConfig s))]
      \<and> controlTimeoutRef (fst (effect_showControl s)) = Some (Handle (nextTimer s))
      \<and> SetTimeout (Handle (nextTimer s)) (controlTimeout (nexenConfig s))
           \<in> set (snd (effect_showControl s))
      \<and> snd (timerFired (Handle (nextTimer s)) (fst (effect_showControl s)))
           = [HideAnimation MainPanel]
      \<and> \<not> showControl (settle (timerFired (Handle (nextTimer s)) (fst (effect_showControl s)))))
   \<and> (\<not> showControl s \<and> controlHideMode (nexenConfig s) = Some Auto
        \<and> controlTimeoutRef s = Some h \<longrightarrow>
      h \<notin> fst ` set (pendingTimers (fst (effect_showControl s)))
      \<and> ClearTimeout h \<in> set (snd (effect_showControl s)))
   \<and> (controlTimeoutRef s = Some h \<longrightarrow>
      h \<notin> fst ` set (pendingTimers (fst (unmount s)))
      \<and> ClearTimeout h \<in> set (snd (unmount s)))
   \<and> (\<forall>ev t. t \<in> set (pendingTimers s) \<and> t \<notin> set (pendingTimers (fst (step props ev s))) \<longrightarrow>
         ev = TimerFired (fst t)
         \<or> (controlTimeoutRef s = Some (fst t)
            \<and> ClearTimeout (fst t) \<in> set (snd (step props ev s))))
   \<and> (controlHideMode (nexenConfig s) = Some Touch \<longrightarrow>
        (\<forall>ev. set (pendingTimers (fst (step props ev s))) \<subseteq> set (pendingTimers s)
              \<and> (\<forall>h' d. SetTimeout h' d \<notin> set (snd (step props ev s)))))"
proof (intro conjI impI allI)
  fix ev t
  assume "t \<in> set (pendingTimers s) \<and> t \<notin> set (pendingTimers (fst (step props ev s)))"
  then show "ev = TimerFired (fst t)
         \<or> (controlTimeoutRef s = Some (fst t)
            \<and> ClearTimeout (fst t) \<in> set (snd (step props ev s)))"
    using step_removed [of t s props ev] by simp
qed (simp_all add: effect_schedules effect_clears unmount_clears step_touch)

text \<open>The run of the two sample hosts: the timer of handle 1 with the default delay of
  5000 is scheduled, then cleared by the hiding effect or by the unmount when nothing ran
  the effect in between; the host without a config never gets a timer.\<close>

lemmas sample_defs =
  controlsShown_def timerPending_def controlsHidden_def touchShown_def touchProps_def
  sampleProps_def emptyConfig_def initialPlayer_def initialConfig_def spreadConfig_def
  defaultConfig_def over_def truthy_def showMainControl_def hideMainControl_def
  effect_showControl_def setControlTimeout_def clearControlTimeout_def unmount_def opt_def
  Let_def

lemma auto_hide_timer_run:
  "showControl controlsShown
   \<and> controlHideMode (nexenConfig controlsShown) = Some Auto
   \<and> pendingTimers timerPending = [(Handle 1, Some 5000)]
   \<and> controlTimeoutRef timerPending = Some (Handle 1)
   \<and> \<not> showControl controlsHidden
   \<and> controlHideMode (nexenConfig controlsHidden) = Some Auto
   \<and> controlTimeoutRef controlsHidden = Some (Handle 1)
   \<and> pendingTimers (fst (effect_showControl controlsHidden)) = []
   \<and> pendingTimers (fst (unmount timerPending)) = []
   \<and> showControl touchShown
   \<and> controlHideMode (nexenConfig touchShown) = Some Touch
   \<and> pendingTimers (fst (step touchProps EffectShowControl touchShown)) = []"
  using auto_hide_timer [of controlsShown "Handle 1" sampleProps]
    auto_hide_timer [of controlsHidden "Handle 1" sampleProps]
    auto_hide_timer [of timerPending "Handle 1" sampleProps]
    auto_hide_timer [of touchShown "Handle 1" touchProps]
  by (simp add: sample_defs)

text \<open>
  C5. The claim that the auto-hide timer is cleared when the controls become hidden or the
  component unmounts, evaluated on the continued run: the timer of handle 1, scheduled when
  the controls became visible, is still pending when the effect has run again after the
  aspect-ratio press and has put handle 2 in the ref without clearing handle 1 (the
  source's \<open>resetControlTimeout\<close>, which clears first, is never called); the hiding effect
  and the unmount cleanup then clear handle 2 only, and the timer of handle 1 stays pending.
\<close>

theorem auto_hide_timer_leak:
  "showControl controlsShown
   \<and> controlHideMode (nexenConfig controlsShown) = Some Auto
   \<and> pendingTimers timerPending = [(Handle 1, Some 5000)]
   \<and> controlTimeoutRef timerPending = Some (Handle 1)
   \<and> showControl ratioPressed
   \<and> pendingTimers rescheduled = [(Handle 1, Some 5000), (Handle 2, Some 5000)]
   \<and> controlTimeoutRef rescheduled = Some (Handle 2)
   \<and> \<not> showControl hiddenAgain
   \<and> controlHideMode (nexenConfig hiddenAgain) = Some Auto
   \<and> snd (effect_showControl hiddenAgain) = [ClearTimeout (Handle 2)]
   \<and> pendingTimers (fst (effect_showControl hiddenAgain)) = [(Handle 1, Some 5000)]
   \<and> snd (unmount rescheduled)
       = [RemoveBackHandler, RemoveAppStateSubscription, ClearTimeout (Handle 2)]
   \<and> pendingTimers (fst (unmount rescheduled)) = [(Handle 1, Some 5000)]"
  by (simp add: hiddenAgain_def rescheduled_def ratioPressed_def press_state sample_defs)

end
